theory Spec2Isabelle
  imports Complex_Main "HOL-Library.Multiset" "HOL-Library.Char_ord" "HOL-Library.List_Lexorder"
begin

section \<open>Data model of compact\_jobs\_dashboard.py\<close>

text \<open>
  A numeric cell of a pandas column is a float64. The model keeps the one special value
  the program depends on, NaN (pandas' null for a numeric cell), and idealises every
  other value as a real number: rounding, overflow and infinities of IEEE arithmetic are
  outside the model.
\<close>

datatype number = NaN | Num real

text \<open>Float addition and division by a constant: NaN is absorbing.\<close>

fun add_num :: "number \<Rightarrow> number \<Rightarrow> number" where
  "add_num (Num a) (Num b) = Num (a + b)"
| "add_num _ _ = NaN"

fun div_num :: "number \<Rightarrow> real \<Rightarrow> number" where
  "div_num (Num a) k = Num (a / k)"
| "div_num NaN k = NaN"

text \<open>The comparison \<^verbatim>\<open>exp <= k\<close> of a float with a literal: false whenever exp is NaN.\<close>

fun le_num :: "number \<Rightarrow> real \<Rightarrow> bool" where
  "le_num (Num a) k = (a \<le> k)"
| "le_num NaN k = False"

text \<open>
  What \<^verbatim>\<open>read_excel\<close> returns for a cell of one of the four numeric columns: a number
  (NaN for a blank cell), or a string when the sheet has text there.
\<close>

datatype cell = Number number | Text string

fun is_number :: "cell \<Rightarrow> bool" where
  "is_number (Number _) = True"
| "is_number (Text _) = False"

text \<open>
  One row of the sheet. A text cell is \<open>None\<close> when it is null. Only the eight columns
  the program reads are kept. The type \<open>'c\<close> of the numeric cells is \<open>cell\<close> in the sheet
  as it is read and \<open>number\<close> once the arithmetic of \<^verbatim>\<open>load_data\<close> has gone through.
\<close>

record 'c posting =
  title :: "string option"
  companyName :: "string option"
  location :: "string option"
  tagsAndSkills :: "string option"
  minimumSalary :: 'c
  maximumSalary :: 'c
  minimumExperience :: 'c
  maximumExperience :: 'c

text \<open>A row after \<^verbatim>\<open>load_data\<close>: the original columns and the three derived ones.\<close>

record prepared = "number posting" +
  avgSalary :: number
  avgExperience :: number
  experienceCategory :: string

text \<open>
  A DataFrame: the names of the columns it has, and its rows. The value a row holds for a
  column that the frame does not have is never read: every access goes through
  \<open>getcol\<close>, which raises \<^verbatim>\<open>KeyError\<close> as \<^verbatim>\<open>df[name]\<close> does.
\<close>

record 'r frame =
  columns :: "string list"
  rows :: "'r list"

datatype error = StopException | KeyError string | TypeError | IndexError | ZeroDivisionError

definition getcol :: "'r frame \<Rightarrow> string \<Rightarrow> ('r \<Rightarrow> 'a) \<Rightarrow> error + 'a list" where
  "getcol df name field =
     (if name \<in> set (columns df) then Inr (map field (rows df)) else Inl (KeyError name))"

text \<open>
  What \<^verbatim>\<open>pd.read_excel(sheet_url)\<close> gives: it raises (the URL is unreachable, or the
  bytes are not a workbook), or it returns a frame.
\<close>

datatype source = Unavailable | Sheet "cell posting frame"

section \<open>load\_data\<close>

definition Fresher :: string where "Fresher = ''Fresher (0-1 years)''"
definition Entry :: string where "Entry = ''Entry Level (1-3 years)''"
definition Mid :: string where "Mid = ''Mid Level (3-5 years)''"
definition Senior :: string where "Senior = ''Senior Level (5-10 years)''"
definition Expert :: string where "Expert = ''Expert Level (10+ years)''"

definition categorize_experience :: "number \<Rightarrow> string" where
  "categorize_experience x =
     (if le_num x 1 then Fresher
      else if le_num x 3 then Entry
      else if le_num x 5 then Mid
      else if le_num x 10 then Senior
      else Expert)"

text \<open>The three column assignments of \<^verbatim>\<open>load_data\<close>, row by row.\<close>

definition derive :: "number posting \<Rightarrow> prepared" where
  "derive r =
     (let s = div_num (add_num (minimumSalary r) (maximumSalary r)) 2;
          e = div_num (add_num (minimumExperience r) (maximumExperience r)) 2
      in posting.extend r (prepared.fields s e (categorize_experience e)))"

text \<open>
  The rows of a sheet whose numeric cells are all numbers. \<open>number_of\<close> is applied to
  such cells only: \<open>load_data\<close> has raised before when a numeric column holds text.
\<close>

fun number_of :: "cell \<Rightarrow> number" where
  "number_of (Number x) = x"
| "number_of (Text _) = NaN"

definition numbers :: "cell posting \<Rightarrow> number posting" where
  "numbers r =
     \<lparr>title = title r, companyName = companyName r, location = location r,
      tagsAndSkills = tagsAndSkills r,
      minimumSalary = number_of (minimumSalary r), maximumSalary = number_of (maximumSalary r),
      minimumExperience = number_of (minimumExperience r),
      maximumExperience = number_of (maximumExperience r)\<rparr>"



text \<open>
  \<^verbatim>\<open>load_data\<close>: the except branch reports the error and calls \<^verbatim>\<open>st.stop()\<close>, which
  ends the script run (\<open>StopException\<close>). The rest is outside the try block. Each of the
  two assignments reads its two columns in the order of the source, so a missing one
  raises \<^verbatim>\<open>KeyError\<close>, and then adds them and divides by 2, which raises \<^verbatim>\<open>TypeError\<close>
  when a cell of either column is text (a string plus a number, or the concatenation of two
  strings divided by 2).
\<close>

definition load_data :: "source \<Rightarrow> error + prepared frame" where
  "load_data src =
     (case src of
        Unavailable \<Rightarrow> Inl StopException
      | Sheet df \<Rightarrow>
          (case getcol df ''minimumSalary'' minimumSalary of Inl e \<Rightarrow> Inl e | Inr lo \<Rightarrow>
          (case getcol df ''maximumSalary'' maximumSalary of Inl e \<Rightarrow> Inl e | Inr hi \<Rightarrow>
          (if \<not> list_all is_number (lo @ hi) then Inl TypeError else
          (case getcol df ''minimumExperience'' minimumExperience of Inl e \<Rightarrow> Inl e | Inr elo \<Rightarrow>
          (case getcol df ''maximumExperience'' maximumExperience of Inl e \<Rightarrow> Inl e | Inr ehi \<Rightarrow>
          (if \<not> list_all is_number (elo @ ehi) then Inl TypeError else
             Inr \<lparr>columns = columns df @ [''avgSalary'', ''avgExperience'', ''experienceCategory''],
                  rows = map (\<lambda>r. derive (numbers r)) (rows df)\<rparr>)))))))"

section \<open>Library operations the program calls\<close>

text \<open>\<^verbatim>\<open>dropna\<close>: the non-null cells of a column, in order.\<close>

fun dropna :: "'a option list \<Rightarrow> 'a list" where
  "dropna [] = []"
| "dropna (None # xs) = dropna xs"
| "dropna (Some x # xs) = x # dropna xs"

text \<open>The distinct values of a column in the order of their first appearance (the order
  in which pandas' hash table yields the keys).\<close>

fun unique :: "'a list \<Rightarrow> 'a list" where
  "unique [] = []"
| "unique (x # xs) = x # unique (removeAll x xs)"

definition counts :: "'a list \<Rightarrow> ('a \<times> nat) list" where
  "counts col = map (\<lambda>k. (k, count_list col k)) (unique col)"

text \<open>
  \<^verbatim>\<open>Series.value_counts()\<close> on the non-null values: the keys with their counts, then
  \<^verbatim>\<open>sort_values(ascending=False)\<close> with pandas' default \<^verbatim>\<open>kind='quicksort'\<close>. That sort
  is library code, documented as not stable, so it is a parameter \<open>srt\<close> here, and
  \<open>sorts_by\<close> is what its documentation promises: a rearrangement of its input that is
  in order.
\<close>

definition value_counts :: "(('a \<times> nat) list \<Rightarrow> ('a \<times> nat) list) \<Rightarrow> 'a list \<Rightarrow> ('a \<times> nat) list" where
  "value_counts srt col = srt (counts col)"

definition sorts_by :: "('a \<Rightarrow> 'a \<Rightarrow> bool) \<Rightarrow> ('a list \<Rightarrow> 'a list) \<Rightarrow> bool" where
  "sorts_by R srt = (\<forall>xs. mset (srt xs) = mset xs \<and> sorted_wrt R (srt xs))"

text \<open>Descending order of counts.\<close>

definition count_ge :: "'a \<times> nat \<Rightarrow> 'a \<times> nat \<Rightarrow> bool" where
  "count_ge a b = (snd b \<le> snd a)"

text \<open>Descending order of floats, NaN last (\<^verbatim>\<open>na_position='last'\<close>).\<close>

fun num_ge :: "'a \<times> number \<Rightarrow> 'a \<times> number \<Rightarrow> bool" where
  "num_ge (_, Num x) (_, Num y) = (y \<le> x)"
| "num_ge (_, Num x) (_, NaN) = True"
| "num_ge (_, NaN) (_, Num y) = False"
| "num_ge (_, NaN) (_, NaN) = True"

text \<open>
  Two sorts that meet \<open>sorts_by\<close>, by insertion; \<open>before y x\<close> says that \<open>y\<close>, already
  placed, stays in front of the new element \<open>x\<close>. \<open>isort\<close> inserts from the right end
  of the list.
\<close>

fun ins :: "('a \<Rightarrow> 'a \<Rightarrow> bool) \<Rightarrow> 'a \<Rightarrow> 'a list \<Rightarrow> 'a list" where
  "ins before x [] = [x]"
| "ins before x (y # ys) = (if before y x then y # ins before x ys else x # y # ys)"

definition isort :: "('a \<Rightarrow> 'a \<Rightarrow> bool) \<Rightarrow> 'a list \<Rightarrow> 'a list" where
  "isort before xs = foldr (ins before) xs []"

text \<open>Stable: equal counts keep their input order.\<close>

definition sort_counts_stable :: "('a \<times> nat) list \<Rightarrow> ('a \<times> nat) list" where
  "sort_counts_stable = isort (\<lambda>y x. snd x < snd y)"

definition sort_nums_stable :: "('a \<times> number) list \<Rightarrow> ('a \<times> number) list" where
  "sort_nums_stable = isort (\<lambda>y x. \<not> num_ge x y)"

text \<open>\<^verbatim>\<open>Series.mean()\<close>: NaN cells are skipped; NaN when nothing is left.\<close>

fun finite_vals :: "number list \<Rightarrow> real list" where
  "finite_vals [] = []"
| "finite_vals (NaN # xs) = finite_vals xs"
| "finite_vals (Num x # xs) = x # finite_vals xs"

definition mean :: "number list \<Rightarrow> number" where
  "mean xs = (let vs = finite_vals xs in if vs = [] then NaN else Num (sum_list vs / real (length vs)))"

text \<open>\<^verbatim>\<open>round(0)\<close>: to the nearest whole number, a half to the even neighbour.\<close>

definition rint :: "real \<Rightarrow> real" where
  "rint x =
     (let f = \<lfloor>x\<rfloor>; d = x - of_int f
      in if d < 1 / 2 then of_int f
         else if 1 / 2 < d then of_int (f + 1)
         else if even f then of_int f else of_int (f + 1))"

fun round_num :: "number \<Rightarrow> number" where
  "round_num (Num x) = Num (rint x)"
| "round_num NaN = NaN"

text \<open>
  \<^verbatim>\<open>groupby(key)[col].mean()\<close>: rows with a null key are in no group; the groups come
  in ascending order of the key.
\<close>

definition group_vals :: "('k option \<times> 'v) list \<Rightarrow> 'k \<Rightarrow> 'v list" where
  "group_vals kvs k = map snd (filter (\<lambda>kv. fst kv = Some k) kvs)"

definition groupby_mean :: "(('k::linorder) option \<times> number) list \<Rightarrow> ('k \<times> number) list" where
  "groupby_mean kvs =
     map (\<lambda>k. (k, mean (group_vals kvs k))) (sort (remdups (dropna (map fst kvs))))"

section \<open>create\_wordcloud\<close>

text \<open>
  Strings are taken to be ASCII. \<open>is_word_char\<close> is the class \<^verbatim>\<open>\w\<close> of the regular
  expression: letters, digits and the underscore.
\<close>

definition is_alnum :: "char \<Rightarrow> bool" where
  "is_alnum c =
     ((CHR ''0'' \<le> c \<and> c \<le> CHR ''9'') \<or> (CHR ''A'' \<le> c \<and> c \<le> CHR ''Z'') \<or>
      (CHR ''a'' \<le> c \<and> c \<le> CHR ''z''))"

definition is_word_char :: "char \<Rightarrow> bool" where
  "is_word_char c = (is_alnum c \<or> c = CHR ''_'')"

definition lower_char :: "char \<Rightarrow> char" where
  "lower_char c =
     (if CHR ''A'' \<le> c \<and> c \<le> CHR ''Z'' then char_of (of_char c + (32::nat)) else c)"

definition lower :: "string \<Rightarrow> string" where
  "lower s = map lower_char s"

fun join :: "string \<Rightarrow> string list \<Rightarrow> string" where
  "join sep [] = []"
| "join sep [x] = x"
| "join sep (x # y # ys) = x @ sep @ join sep (y # ys)"

text \<open>
  \<^verbatim>\<open>re.findall(r'\b\w+\b', s)\<close>: the maximal runs of word characters, left to right;
  \<open>cur\<close> is the run being read.
\<close>

fun runs :: "string \<Rightarrow> string \<Rightarrow> string list" where
  "runs cur [] = (if cur = [] then [] else [cur])"
| "runs cur (c # cs) =
     (if is_word_char c then runs (cur @ [c]) cs
      else (if cur = [] then [] else [cur]) @ runs [] cs)"

definition findall_words :: "string \<Rightarrow> string list" where
  "findall_words s = runs [] s"

definition stop_words :: "string list" where
  "stop_words =
     [''and'', ''or'', ''the'', ''a'', ''an'', ''in'', ''on'', ''at'', ''to'', ''for'', ''of'',
      ''with'', ''by'', ''is'', ''are'', ''was'', ''were'', ''be'', ''been'', ''being'', ''have'',
      ''has'', ''had'', ''do'', ''does'', ''did'', ''will'', ''would'', ''could'', ''should'',
      ''may'', ''might'', ''must'', ''can'', ''shall'', ''skills'', ''skill'', ''experience'',
      ''required'', ''years'', ''year'', ''work'']"

text \<open>The list \<^verbatim>\<open>words\<close> of \<^verbatim>\<open>create_wordcloud\<close> after its filter.\<close>

definition skill_words :: "string option list \<Rightarrow> string list" where
  "skill_words text_data =
     (let all_text = join '' '' (dropna text_data);
          words = findall_words (lower all_text)
      in filter (\<lambda>word. word \<notin> set stop_words \<and> 2 < length word) words)"

text \<open>
  \<^verbatim>\<open>create_wordcloud\<close>: \<open>None\<close> as in the source, otherwise the text that is handed to
  \<^verbatim>\<open>WordCloud(...).generate\<close>; what that library does with it (its own counting and
  layout) is outside the program.
\<close>

definition create_wordcloud :: "string option list \<Rightarrow> string option" where
  "create_wordcloud text_data =
     (if text_data = [] then None
      else let words = skill_words text_data
           in if words = [] then None else Some (join '' '' words))"

section \<open>KPIs and charts\<close>

text \<open>Each chart function is modelled by the series it plots.\<close>

definition create_chart1 ::
  "((string \<times> nat) list \<Rightarrow> (string \<times> nat) list) \<Rightarrow> prepared frame \<Rightarrow> error + (string \<times> nat) list" where
  "create_chart1 srt df =
     (case getcol df ''title'' title of Inl e \<Rightarrow> Inl e
      | Inr col \<Rightarrow> Inr (take 10 (value_counts srt (dropna col))))"

definition create_chart2 ::
  "((string \<times> nat) list \<Rightarrow> (string \<times> nat) list) \<Rightarrow> prepared frame \<Rightarrow> error + (string \<times> nat) list" where
  "create_chart2 srt df =
     (case getcol df ''location'' location of Inl e \<Rightarrow> Inl e
      | Inr col \<Rightarrow> Inr (take 10 (value_counts srt (dropna col))))"

definition create_chart3 :: "prepared frame \<Rightarrow> error + string option" where
  "create_chart3 df =
     (case getcol df ''tagsAndSkills'' tagsAndSkills of Inl e \<Rightarrow> Inl e
      | Inr col \<Rightarrow> Inr (create_wordcloud (map Some (dropna col))))"

definition create_chart6 ::
  "((string \<times> number) list \<Rightarrow> (string \<times> number) list) \<Rightarrow> prepared frame \<Rightarrow> error + (string \<times> number) list" where
  "create_chart6 srt df =
     (case getcol df ''companyName'' companyName of Inl e \<Rightarrow> Inl e
      | Inr names \<Rightarrow>
          (case getcol df ''avgSalary'' avgSalary of Inl e \<Rightarrow> Inl e
           | Inr sal \<Rightarrow>
               (let company_salary = map (\<lambda>(k, m). (k, round_num m)) (groupby_mean (zip names sal))
                in Inr (take 10 (srt company_salary)))))"

definition create_chart8 ::
  "((string \<times> nat) list \<Rightarrow> (string \<times> nat) list) \<Rightarrow> prepared frame \<Rightarrow> error + (string \<times> nat) list" where
  "create_chart8 srt df =
     (case getcol df ''experienceCategory'' experienceCategory of Inl e \<Rightarrow> Inl e
      | Inr col \<Rightarrow> Inr (value_counts srt col))"

text \<open>\<^verbatim>\<open>df['location'].value_counts().index[0]\<close>\<close>

definition top_city ::
  "((string \<times> nat) list \<Rightarrow> (string \<times> nat) list) \<Rightarrow> prepared frame \<Rightarrow> error + string" where
  "top_city srt df =
     (case getcol df ''location'' location of Inl e \<Rightarrow> Inl e
      | Inr col \<Rightarrow>
          (case value_counts srt (dropna col) of [] \<Rightarrow> Inl IndexError | kc # _ \<Rightarrow> Inr (fst kc)))"

text \<open>
  \<^verbatim>\<open>(len(df[df['experienceCategory'] == 'Fresher (0-1 years)']) / len(df)) * 100\<close>:
  a division of two Python ints, which raises when the divisor is 0.
\<close>

definition fresher_pct :: "prepared frame \<Rightarrow> error + real" where
  "fresher_pct df =
     (case getcol df ''experienceCategory'' experienceCategory of Inl e \<Rightarrow> Inl e
      | Inr col \<Rightarrow>
          (if length (rows df) = 0 then Inl ZeroDivisionError
           else Inr (real (length (filter (\<lambda>c. c = Fresher) col)) / real (length (rows df)) * 100)))"

definition avg_of :: "prepared frame \<Rightarrow> string \<Rightarrow> (prepared \<Rightarrow> number) \<Rightarrow> error + number" where
  "avg_of df name field = (case getcol df name field of Inl e \<Rightarrow> Inl e | Inr col \<Rightarrow> Inr (mean col))"

section \<open>main\<close>

text \<open>What the page shows below its header: the five KPIs, then the five charts.\<close>

datatype widget =
    TotalJobs nat
  | AvgSalary number
  | AvgExp number
  | TopCity string
  | FresherJobs real
  | Chart1 "(string \<times> nat) list"
  | Chart2 "(string \<times> nat) list"
  | Chart3 "string option"
  | Chart6 "(string \<times> number) list"
  | Chart8 "(string \<times> nat) list"

definition widget_of :: "('a \<Rightarrow> widget) \<Rightarrow> error + 'a \<Rightarrow> error + widget" where
  "widget_of w r = (case r of Inl e \<Rightarrow> Inl e | Inr v \<Rightarrow> Inr (w v))"

text \<open>The steps run in order; the first exception ends the run, and what was rendered
  before it stays on the page.\<close>

fun render :: "(error + widget) list \<Rightarrow> widget list \<times> error option" where
  "render [] = ([], None)"
| "render (Inl e # _) = ([], Some e)"
| "render (Inr w # rest) = (case render rest of (ws, r) \<Rightarrow> (w # ws, r))"

definition main ::
  "((string \<times> nat) list \<Rightarrow> (string \<times> nat) list) \<Rightarrow>
   ((string \<times> number) list \<Rightarrow> (string \<times> number) list) \<Rightarrow> source \<Rightarrow> widget list \<times> error option" where
  "main srt srtn src =
     (case load_data src of
        Inl e \<Rightarrow> ([], Some e)
      | Inr df \<Rightarrow>
          render
            [Inr (TotalJobs (length (rows df))),
             widget_of AvgSalary (avg_of df ''avgSalary'' avgSalary),
             widget_of AvgExp (avg_of df ''avgExperience'' avgExperience),
             widget_of TopCity (top_city srt df),
             widget_of FresherJobs (fresher_pct df),
             widget_of Chart1 (create_chart1 srt df),
             widget_of Chart2 (create_chart2 srt df),
             widget_of Chart3 (create_chart3 df),
             widget_of Chart6 (create_chart6 srtn df),
             widget_of Chart8 (create_chart8 srt df)])"

section \<open>Example tables\<close>

definition all_columns :: "string list" where
  "all_columns =
     [''title'', ''companyName'', ''location'', ''tagsAndSkills'', ''minimumSalary'',
      ''maximumSalary'', ''minimumExperience'', ''maximumExperience'']"

definition row1 :: "number posting" where
  "row1 = \<lparr>title = Some ''A'', companyName = Some ''Acme'', location = Some ''X'',
     tagsAndSkills = Some ''Python, SQL Skills'', minimumSalary = Num 1000,
     maximumSalary = Num 2000, minimumExperience = Num 0, maximumExperience = Num 1\<rparr>"

definition row2 :: "number posting" where
  "row2 = \<lparr>title = Some ''A'', companyName = Some ''Acme'', location = Some ''Y'',
     tagsAndSkills = None, minimumSalary = Num 3000,
     maximumSalary = Num 5000, minimumExperience = Num 2, maximumExperience = Num 4\<rparr>"

definition row3 :: "number posting" where
  "row3 = \<lparr>title = Some ''B'', companyName = Some ''Initech'', location = Some ''X'',
     tagsAndSkills = Some ''machine_learning'', minimumSalary = NaN,
     maximumSalary = NaN, minimumExperience = Num 11, maximumExperience = Num 13\<rparr>"

definition row4 :: "number posting" where
  "row4 = \<lparr>title = Some ''C'', companyName = None, location = Some ''Z'',
     tagsAndSkills = Some [], minimumSalary = Num 4000,
     maximumSalary = NaN, minimumExperience = Num 0, maximumExperience = NaN\<rparr>"

text \<open>A row of numbers as the cells of a sheet.\<close>

definition cells :: "number posting \<Rightarrow> cell posting" where
  "cells r =
     \<lparr>title = title r, companyName = companyName r, location = location r,
      tagsAndSkills = tagsAndSkills r,
      minimumSalary = Number (minimumSalary r), maximumSalary = Number (maximumSalary r),
      minimumExperience = Number (minimumExperience r),
      maximumExperience = Number (maximumExperience r)\<rparr>"

definition sheet_of :: "number posting list \<Rightarrow> source" where
  "sheet_of rs = Sheet \<lparr>columns = all_columns, rows = map cells rs\<rparr>"

definition loaded :: "number posting list \<Rightarrow> prepared frame" where
  "loaded rs =
     \<lparr>columns = all_columns @ [''avgSalary'', ''avgExperience'', ''experienceCategory''],
      rows = map derive rs\<rparr>"





section \<open>Facts about the library operations\<close>

lemma set_unique: "set (unique xs) = set xs"
  by (induction xs rule: unique.induct) auto

lemma distinct_unique: "distinct (unique xs)"
  by (induction xs rule: unique.induct) (auto simp: set_unique)

lemma keys_counts: "map fst (counts col) = unique col"
  by (simp add: counts_def comp_def)

lemma total_counts: "sum_list (map snd (counts col)) = length col"
proof -
  have "sum_list (map snd (counts col)) = sum_list (map (count_list col) (unique col))"
    by (simp add: counts_def comp_def)
  also have "\<dots> = sum (count_list col) (set col)"
    by (simp add: sum_list_distinct_conv_sum_set distinct_unique set_unique)
  also have "\<dots> = length col"
    by (rule sum_count_set) simp_all
  finally show ?thesis .
qed

lemma counts_entry: "(k, c) \<in> set (counts col) \<longleftrightarrow> k \<in> set col \<and> c = count_list col k"
  by (auto simp: counts_def set_unique)

lemma sorts_by_mset: "sorts_by R srt \<Longrightarrow> mset (srt xs) = mset xs"
  by (simp add: sorts_by_def)

lemma sorts_by_sorted: "sorts_by R srt \<Longrightarrow> sorted_wrt R (srt xs)"
  by (simp add: sorts_by_def)

lemma sorts_by_set: "sorts_by R srt \<Longrightarrow> set (srt xs) = set xs"
  by (metis sorts_by_mset set_mset_mset)

lemma sorts_by_length: "sorts_by R srt \<Longrightarrow> length (srt xs) = length xs"
  by (metis sorts_by_mset size_mset)

lemma sorts_by_sum: "sorts_by R srt \<Longrightarrow> sum_list (map f (srt xs)) = sum_list (map (f :: 'a \<Rightarrow> nat) xs)"
  by (metis sorts_by_mset mset_map sum_mset_sum_list)

lemma sorts_by_distinct_keys:
  "sorts_by R srt \<Longrightarrow> distinct (map f (srt xs)) = distinct (map f xs)"
  by (metis sorts_by_mset mset_map mset_eq_imp_distinct_iff)

lemma mset_ins: "mset (ins before x ys) = add_mset x (mset ys)"
  by (induction ys) simp_all

lemma mset_isort: "mset (isort before xs) = mset xs"
  by (induction xs) (simp_all add: isort_def mset_ins)

lemma set_ins: "set (ins before x ys) = insert x (set ys)"
  by (metis mset_ins set_mset_mset set_mset_add_mset_insert)

lemma sorted_ins:
  assumes fwd: "\<And>a b. before a b \<Longrightarrow> R a b"
    and bwd: "\<And>a b. \<not> before a b \<Longrightarrow> R b a"
    and tr: "\<And>a b c. R a b \<Longrightarrow> R b c \<Longrightarrow> R a c"
  shows "sorted_wrt R ys \<Longrightarrow> sorted_wrt R (ins before x ys)"
proof (induction ys)
  case Nil
  then show ?case by simp
next
  case (Cons y ys)
  show ?case
  proof (cases "before y x")
    case True
    with Cons fwd show ?thesis by (auto simp: set_ins)
  next
    case False
    then have "R x y" by (rule bwd)
    with Cons.prems tr have "\<forall>z\<in>set (y # ys). R x z" by auto
    with False Cons.prems show ?thesis by simp
  qed
qed

lemma sorted_isort:
  assumes "\<And>a b. before a b \<Longrightarrow> R a b"
    and "\<And>a b. \<not> before a b \<Longrightarrow> R b a"
    and "\<And>a b c. R a b \<Longrightarrow> R b c \<Longrightarrow> R a c"
  shows "sorted_wrt R (isort before xs)"
proof (induction xs)
  case Nil
  then show ?case by (simp add: isort_def)
next
  case (Cons x xs)
  have "isort before (x # xs) = ins before x (isort before xs)"
    by (simp add: isort_def)
  with Cons sorted_ins [of before R, OF assms] show ?case by simp
qed

lemma sorts_by_stable: "sorts_by count_ge sort_counts_stable"
  unfolding sorts_by_def sort_counts_stable_def
  by (intro allI conjI mset_isort sorted_isort) (auto simp: count_ge_def)

lemma num_ge_trans: "num_ge a b \<Longrightarrow> num_ge b c \<Longrightarrow> num_ge a c"
  by (cases a; cases b; cases c; cases "snd a"; cases "snd b"; cases "snd c") auto

lemma num_ge_total: "\<not> num_ge a b \<Longrightarrow> num_ge b a"
  by (cases a; cases b; cases "snd a"; cases "snd b") auto

lemma sorts_by_nums: "sorts_by num_ge sort_nums_stable"
  unfolding sorts_by_def sort_nums_stable_def
  by (intro allI conjI mset_isort sorted_isort) (auto intro: num_ge_trans num_ge_total)

section \<open>The derived columns\<close>

lemma derive_fields:
  "title (derive r) = title r"
  "companyName (derive r) = companyName r"
  "location (derive r) = location r"
  "tagsAndSkills (derive r) = tagsAndSkills r"
  "minimumSalary (derive r) = minimumSalary r"
  "maximumSalary (derive r) = maximumSalary r"
  "minimumExperience (derive r) = minimumExperience r"
  "maximumExperience (derive r) = maximumExperience r"
  "avgSalary (derive r) = div_num (add_num (minimumSalary r) (maximumSalary r)) 2"
  "avgExperience (derive r) = div_num (add_num (minimumExperience r) (maximumExperience r)) 2"
  "experienceCategory (derive r) = categorize_experience (avgExperience (derive r))"
  by (simp_all add: derive_def Let_def posting.defs prepared.defs)

lemma numbers_cells: "numbers (cells r) = r"
  by (simp add: numbers_def cells_def)

lemma is_number_cells:
  "is_number (minimumSalary (cells r))" "is_number (maximumSalary (cells r))"
  "is_number (minimumExperience (cells r))" "is_number (maximumExperience (cells r))"
  by (simp_all add: cells_def)

lemma load_data_rows:
  "load_data src = Inr df \<Longrightarrow>
     \<exists>fr. src = Sheet fr \<and> rows df = map derive (map numbers (rows fr))"
  by (auto simp: load_data_def split: source.splits sum.splits if_splits)

lemma load_data_columns:
  "load_data src = Inr df \<Longrightarrow>
     {''avgSalary'', ''avgExperience'', ''experienceCategory''} \<subseteq> set (columns df)"
  by (auto simp: load_data_def split: source.splits sum.splits if_splits)

lemma numeric_cells:
  "list_all is_number (map minimumSalary (map cells rs) @ map maximumSalary (map cells rs))"
  "list_all is_number (map minimumExperience (map cells rs) @ map maximumExperience (map cells rs))"
  by (induction rs) (simp_all add: is_number_cells)

lemma load_data_sheet_of: "load_data (sheet_of rs) = Inr (loaded rs)"
proof -
  have "map (\<lambda>r. derive (numbers r)) (map cells rs) = map derive rs"
    by (simp add: numbers_cells comp_def)
  then show ?thesis
    by (simp add: load_data_def sheet_of_def loaded_def getcol_def all_columns_def
        numeric_cells del: map_map list_all_append map_append)
qed

lemmas band_defs = Fresher_def Entry_def Mid_def Senior_def Expert_def

text \<open>
  Claim C2. \<open>categorize_experience\<close> sends every number to one of five distinct bands:
  values in [0,1] to Fresher, in (1,3] to Entry, in (3,5] to Mid, in (5,10] to Senior and
  values above 10 to Expert; so 1 is Fresher, 3 is Entry, 5 is Mid, 10 is Senior and
  10.01 is Expert.
\<close>

theorem categorize_experience_bands:
  "(0 \<le> x \<and> x \<le> 1 \<longrightarrow> categorize_experience (Num x) = Fresher) \<and>
   (1 < x \<and> x \<le> 3 \<longrightarrow> categorize_experience (Num x) = Entry) \<and>
   (3 < x \<and> x \<le> 5 \<longrightarrow> categorize_experience (Num x) = Mid) \<and>
   (5 < x \<and> x \<le> 10 \<longrightarrow> categorize_experience (Num x) = Senior) \<and>
   (10 < x \<longrightarrow> categorize_experience (Num x) = Expert) \<and>
   categorize_experience (Num 1) = Fresher \<and>
   categorize_experience (Num 3) = Entry \<and>
   categorize_experience (Num 5) = Mid \<and>
   categorize_experience (Num 10) = Senior \<and>
   categorize_experience (Num 10.01) = Expert \<and>
   categorize_experience (Num x) \<in> set [Fresher, Entry, Mid, Senior, Expert] \<and>
   distinct [Fresher, Entry, Mid, Senior, Expert]"
  by (simp add: categorize_experience_def band_defs)

theorem categorize_experience_bands_witness:
  "categorize_experience (Num (1 / 2)) = Fresher \<and>
   categorize_experience (Num 2) = Entry \<and>
   categorize_experience (Num 4) = Mid \<and>
   categorize_experience (Num 7) = Senior \<and>
   categorize_experience (Num 11) = Expert"
proof -
  have "categorize_experience (Num (1 / 2)) = Fresher"
    using categorize_experience_bands [of "1 / 2"] by simp
  moreover have "categorize_experience (Num 2) = Entry"
    using categorize_experience_bands [of 2] by simp
  moreover have "categorize_experience (Num 4) = Mid"
    using categorize_experience_bands [of 4] by simp
  moreover have "categorize_experience (Num 7) = Senior"
    using categorize_experience_bands [of 7] by simp
  moreover have "categorize_experience (Num 11) = Expert"
    using categorize_experience_bands [of 11] by simp
  ultimately show ?thesis by simp
qed

section \<open>Counting by category\<close>

lemma count_list_map:
  "count_list (map f rs) k = length (filter (\<lambda>r. f r = k) rs)"
  by (induction rs) simp_all

lemma chart8_loaded:
  assumes "load_data src = Inr df"
  shows "create_chart8 srt df = Inr (value_counts srt (map experienceCategory (rows df)))"
  using load_data_columns [OF assms] by (simp add: create_chart8_def getcol_def)

lemma fresher_pct_loaded:
  assumes "load_data src = Inr df"
  shows "fresher_pct df =
     (if rows df = [] then Inl ZeroDivisionError
      else Inr (real (length (filter (\<lambda>r. experienceCategory r = Fresher) (rows df))) /
                real (length (rows df)) * 100))"
  using load_data_columns [OF assms]
  by (simp add: fresher_pct_def getcol_def filter_map comp_def)

lemma value_counts_entry:
  assumes "sorts_by R srt"
  shows "(k, c) \<in> set (value_counts srt col) \<longleftrightarrow> k \<in> set col \<and> c = count_list col k"
  by (simp add: value_counts_def sorts_by_set [OF assms] counts_entry)

lemma value_counts_distinct:
  assumes "sorts_by R srt"
  shows "distinct (map fst (value_counts srt col))"
  by (simp add: value_counts_def sorts_by_distinct_keys [OF assms] keys_counts distinct_unique)

lemma value_counts_total:
  assumes "sorts_by R srt"
  shows "sum_list (map snd (value_counts srt col)) = length col"
  by (simp add: value_counts_def sorts_by_sum [OF assms] total_counts)

lemma count_list_pos: "0 < count_list xs k \<longleftrightarrow> k \<in> set xs"
  by (induction xs) auto

lemma nan_category:
  "minimumExperience r = NaN \<or> maximumExperience r = NaN \<Longrightarrow>
     avgExperience (derive r) = NaN \<and> experienceCategory (derive r) = Expert"
  by (auto simp: derive_fields categorize_experience_def)

lemma band_neq:
  "Fresher \<noteq> Entry" "Fresher \<noteq> Mid" "Fresher \<noteq> Senior" "Fresher \<noteq> Expert"
  "Entry \<noteq> Fresher" "Entry \<noteq> Mid" "Entry \<noteq> Senior" "Entry \<noteq> Expert"
  "Mid \<noteq> Fresher" "Mid \<noteq> Entry" "Mid \<noteq> Senior" "Mid \<noteq> Expert"
  "Senior \<noteq> Fresher" "Senior \<noteq> Entry" "Senior \<noteq> Mid" "Senior \<noteq> Expert"
  "Expert \<noteq> Fresher" "Expert \<noteq> Entry" "Expert \<noteq> Mid" "Expert \<noteq> Senior"
  by (simp_all add: band_defs)

lemma cat_row1: "experienceCategory (derive row1) = Fresher"
  by (simp add: derive_fields row1_def categorize_experience_def)

lemma cat_row2: "experienceCategory (derive row2) = Entry"
  by (simp add: derive_fields row2_def categorize_experience_def)

lemma cat_row3: "experienceCategory (derive row3) = Expert"
  by (simp add: derive_fields row3_def categorize_experience_def)

lemma cat_row4: "experienceCategory (derive row4) = Expert"
  by (simp add: derive_fields row4_def categorize_experience_def)

lemma rows_loaded: "rows (loaded rs) = map derive rs"
  by (simp add: loaded_def)

lemma chart8_sample:
  "create_chart8 sort_counts_stable (loaded [row1, row2, row3]) =
     Inr [(Fresher, 1), (Entry, 1), (Expert, 1)]"
  by (simp add: chart8_loaded [OF load_data_sheet_of] rows_loaded cat_row1 cat_row2 cat_row3
      value_counts_def counts_def sort_counts_stable_def isort_def band_neq)

lemma chart8_sample14:
  "create_chart8 sort_counts_stable (loaded [row1, row4]) = Inr [(Fresher, 1), (Expert, 1)]"
  by (simp add: chart8_loaded [OF load_data_sheet_of] rows_loaded cat_row1 cat_row4
      value_counts_def counts_def sort_counts_stable_def isort_def band_neq)

lemma fresher_sample14: "fresher_pct (loaded [row1, row4]) = Inr 50"
  by (simp add: fresher_pct_loaded [OF load_data_sheet_of] rows_loaded cat_row1 cat_row4 band_neq)

lemma fresher_sample: "fresher_pct (loaded [row1, row2, row3]) = Inr (100 / 3)"
  by (simp add: fresher_pct_loaded [OF load_data_sheet_of] rows_loaded cat_row1 cat_row2 cat_row3 band_neq)

section \<open>experienceDistribution\<close>

text \<open>
  Claim C6. For every non-empty loaded table, the counts that \<open>create_chart8\<close> plots
  (\<^verbatim>\<open>df['experienceCategory'].value_counts()\<close>) add up to the number of rows.
\<close>

theorem experience_distribution_total:
  assumes "load_data src = Inr df" and "sorts_by count_ge srt" and "rows df \<noteq> []"
  shows "\<exists>d. create_chart8 srt df = Inr d \<and> sum_list (map snd d) = length (rows df)"
  by (simp add: chart8_loaded [OF assms(1)] value_counts_total [OF assms(2)])
theorem experience_distribution_total_witness:
  "load_data (sheet_of [row1, row2, row3]) = Inr (loaded [row1, row2, row3]) \<and>
   sorts_by count_ge (sort_counts_stable :: (string \<times> nat) list \<Rightarrow> (string \<times> nat) list) \<and>
   rows (loaded [row1, row2, row3]) \<noteq> [] \<and>
   (\<exists>d. create_chart8 sort_counts_stable (loaded [row1, row2, row3]) = Inr d \<and>
        sum_list (map snd d) = 3)"
proof -
  have ne: "rows (loaded [row1, row2, row3]) \<noteq> []"
    by (simp add: rows_loaded)
  have len: "length (rows (loaded [row1, row2, row3])) = 3"
    by (simp add: rows_loaded)
  from experience_distribution_total [OF load_data_sheet_of sorts_by_stable ne]
  have d: "\<exists>d. create_chart8 sort_counts_stable (loaded [row1, row2, row3]) = Inr d \<and>
        sum_list (map snd d) = 3"
    by (simp only: len)
  show ?thesis
    by (intro conjI) (rule load_data_sheet_of sorts_by_stable ne d)+
qed

text \<open>
  Claim C5, as the code has it. \<open>create_chart8\<close> reports one entry per band that occurs in
  at least one row, with the number of rows in that band, in descending order of count;
  a band with no row has no entry (the claim says it is reported with count 0).
\<close>

theorem experience_distribution_present_bands:
  assumes "load_data src = Inr df" and "sorts_by count_ge srt"
  shows "\<exists>d. create_chart8 srt df = Inr d \<and> distinct (map fst d) \<and> sorted_wrt count_ge d \<and>
           (\<forall>k c. (k, c) \<in> set d \<longleftrightarrow>
              0 < c \<and> c = length (filter (\<lambda>r. experienceCategory r = k) (rows df)))"
proof -
  let ?col = "map experienceCategory (rows df)"
  let ?d = "value_counts srt ?col"
  have "create_chart8 srt df = Inr ?d" by (rule chart8_loaded [OF assms(1)])
  moreover have "distinct (map fst ?d)" by (rule value_counts_distinct [OF assms(2)])
  moreover have "sorted_wrt count_ge ?d"
    by (simp add: value_counts_def sorts_by_sorted [OF assms(2)])
  moreover have "(k, c) \<in> set ?d \<longleftrightarrow>
      0 < c \<and> c = length (filter (\<lambda>r. experienceCategory r = k) (rows df))" for k c
    using count_list_pos [of ?col k]
    by (auto simp: value_counts_entry [OF assms(2)] count_list_map)
  ultimately show ?thesis by blast
qed
theorem experience_distribution_present_bands_witness:
  "load_data (sheet_of [row1, row2, row3]) = Inr (loaded [row1, row2, row3]) \<and>
   sorts_by count_ge (sort_counts_stable :: (string \<times> nat) list \<Rightarrow> (string \<times> nat) list) \<and>
   (\<exists>d. create_chart8 sort_counts_stable (loaded [row1, row2, row3]) = Inr d \<and>
        distinct (map fst d) \<and> sorted_wrt count_ge d \<and>
        (Fresher, 1) \<in> set d \<and> (Mid, 0) \<notin> set d)"
proof -
  from experience_distribution_present_bands [OF load_data_sheet_of sorts_by_stable]
  obtain d where d: "create_chart8 sort_counts_stable (loaded [row1, row2, row3]) = Inr d"
    "distinct (map fst d)" "sorted_wrt count_ge d"
    "\<And>k c. (k, c) \<in> set d \<longleftrightarrow>
       0 < c \<and> c = length (filter (\<lambda>r. experienceCategory r = k) (rows (loaded [row1, row2, row3])))"
    by blast
  have "length (filter (\<lambda>r. experienceCategory r = Fresher) (rows (loaded [row1, row2, row3]))) = 1"
    by (simp add: rows_loaded cat_row1 cat_row2 cat_row3 band_neq)
  with d(4) [of Fresher 1] have "(Fresher, 1) \<in> set d" by simp
  moreover from d(4) [of Mid 0] have "(Mid, 0) \<notin> set d" by simp
  ultimately show ?thesis using d(1-3)
    by (simp add: load_data_sheet_of sorts_by_stable)
qed

theorem experience_distribution_missing_band:
  "load_data (sheet_of [row1, row2, row3]) = Inr (loaded [row1, row2, row3]) \<and>
   create_chart8 sort_counts_stable (loaded [row1, row2, row3]) =
     Inr [(Fresher, 1), (Entry, 1), (Expert, 1)] \<and>
   Mid \<notin> set (map fst [(Fresher, 1::nat), (Entry, 1), (Expert, 1)]) \<and>
   Senior \<notin> set (map fst [(Fresher, 1::nat), (Entry, 1), (Expert, 1)])"
  by (simp add: load_data_sheet_of chart8_sample band_neq)

text \<open>
  Claim C10. \<open>categorize_experience\<close> of NaN is the Expert band. So a row with a missing
  experience bound has \<open>avgExperience\<close> NaN and category Expert, not Fresher; the Expert
  count of \<open>create_chart8\<close> covers all such rows; and \<open>fresher_pct\<close> counts none of them.
\<close>

theorem nan_experience_is_expert:
  assumes "load_data src = Inr df" and "sorts_by count_ge srt"
  shows "categorize_experience NaN = Expert \<and>
    (\<forall>r\<in>set (rows df). minimumExperience r = NaN \<or> maximumExperience r = NaN \<longrightarrow>
        avgExperience r = NaN \<and> experienceCategory r = Expert \<and> experienceCategory r \<noteq> Fresher) \<and>
    (\<forall>d. create_chart8 srt df = Inr d \<and>
         0 < length (filter (\<lambda>r. minimumExperience r = NaN \<or> maximumExperience r = NaN) (rows df)) \<longrightarrow>
        (\<exists>c. (Expert, c) \<in> set d \<and>
          length (filter (\<lambda>r. minimumExperience r = NaN \<or> maximumExperience r = NaN) (rows df)) \<le> c)) \<and>
    (\<forall>p. fresher_pct df = Inr p \<longrightarrow>
        p = real (length (filter (\<lambda>r. minimumExperience r \<noteq> NaN \<and> maximumExperience r \<noteq> NaN \<and>
                                    experienceCategory r = Fresher) (rows df))) /
            real (length (rows df)) * 100)"
proof -
  let ?nan = "\<lambda>r::prepared. minimumExperience r = NaN \<or> maximumExperience r = NaN"
  have a: "categorize_experience NaN = Expert"
    by (simp add: categorize_experience_def)
  have rows: "\<forall>r\<in>set (rows df). ?nan r \<longrightarrow>
      avgExperience r = NaN \<and> experienceCategory r = Expert \<and> experienceCategory r \<noteq> Fresher"
  proof (intro ballI impI)
    fix r assume "r \<in> set (rows df)" and n: "?nan r"
    with load_data_rows [OF assms(1)] obtain r0 where r: "r = derive r0" by auto
    with n have "minimumExperience r0 = NaN \<or> maximumExperience r0 = NaN"
      by (simp add: derive_fields)
    from nan_category [OF this] r band_neq(17)
    show "avgExperience r = NaN \<and> experienceCategory r = Expert \<and> experienceCategory r \<noteq> Fresher"
      by simp
  qed
  have le: "length (filter ?nan (rows df)) \<le> length (filter (\<lambda>r. experienceCategory r = Expert) (rows df))"
  proof -
    have "filter ?nan (rows df) = filter ?nan (filter (\<lambda>r. experienceCategory r = Expert) (rows df))"
      using rows by (auto intro: filter_cong)
    then have "length (filter ?nan (rows df)) =
        length (filter ?nan (filter (\<lambda>r. experienceCategory r = Expert) (rows df)))"
      by simp
    also have "\<dots> \<le> length (filter (\<lambda>r. experienceCategory r = Expert) (rows df))"
      by (rule length_filter_le)
    finally show ?thesis .
  qed
  have c: "\<exists>c. (Expert, c) \<in> set d \<and> length (filter ?nan (rows df)) \<le> c"
    if "create_chart8 srt df = Inr d" and "0 < length (filter ?nan (rows df))" for d
  proof -
    from that(1) have d: "d = value_counts srt (map experienceCategory (rows df))"
      by (simp add: chart8_loaded [OF assms(1)])
    let ?c = "length (filter (\<lambda>r. experienceCategory r = Expert) (rows df))"
    from that(2) le have "0 < ?c" by linarith
    then have "0 < count_list (map experienceCategory (rows df)) Expert"
      by (simp only: count_list_map)
    then have "Expert \<in> set (map experienceCategory (rows df))"
      by (simp only: count_list_pos)
    then have "(Expert, ?c) \<in> set d"
      by (simp add: d value_counts_entry [OF assms(2)] count_list_map)
    with le show ?thesis by blast
  qed
  have f: "filter (\<lambda>r. experienceCategory r = Fresher) (rows df) =
      filter (\<lambda>r. minimumExperience r \<noteq> NaN \<and> maximumExperience r \<noteq> NaN \<and>
                  experienceCategory r = Fresher) (rows df)"
    using rows by (auto intro: filter_cong)
  have p: "\<forall>p. fresher_pct df = Inr p \<longrightarrow>
        p = real (length (filter (\<lambda>r. minimumExperience r \<noteq> NaN \<and> maximumExperience r \<noteq> NaN \<and>
                                    experienceCategory r = Fresher) (rows df))) /
            real (length (rows df)) * 100"
    unfolding f [symmetric] by (simp add: fresher_pct_loaded [OF assms(1)])
  from a rows c p show ?thesis by blast
qed
theorem nan_experience_is_expert_witness:
  "load_data (sheet_of [row1, row4]) = Inr (loaded [row1, row4]) \<and>
   sorts_by count_ge (sort_counts_stable :: (string \<times> nat) list \<Rightarrow> (string \<times> nat) list) \<and>
   derive row4 \<in> set (rows (loaded [row1, row4])) \<and>
   maximumExperience (derive row4) = NaN \<and>
   avgExperience (derive row4) = NaN \<and>
   experienceCategory (derive row4) = Expert \<and>
   create_chart8 sort_counts_stable (loaded [row1, row4]) = Inr [(Fresher, 1), (Expert, 1)] \<and>
   length (filter (\<lambda>r. minimumExperience r = NaN \<or> maximumExperience r = NaN)
      (rows (loaded [row1, row4]))) = 1 \<and>
   (\<exists>c. (Expert, c) \<in> set [(Fresher, 1), (Expert, 1)] \<and> (1::nat) \<le> c) \<and>
   fresher_pct (loaded [row1, row4]) = Inr 50"
proof -
  note t = nan_experience_is_expert [OF load_data_sheet_of sorts_by_stable, of "[row1, row4]"]
  have m: "derive row4 \<in> set (rows (loaded [row1, row4]))"
    by (simp add: rows_loaded)
  have n: "maximumExperience (derive row4) = NaN"
    by (simp add: derive_fields row4_def)
  have k: "length (filter (\<lambda>r. minimumExperience r = NaN \<or> maximumExperience r = NaN)
      (rows (loaded [row1, row4]))) = 1"
    by (simp add: rows_loaded derive_fields row1_def row4_def)
  from t m n have r4: "avgExperience (derive row4) = NaN \<and> experienceCategory (derive row4) = Expert"
    by blast
  from t chart8_sample14 k
  have c: "\<exists>c. (Expert, c) \<in> set [(Fresher, 1), (Expert, 1)] \<and> (1::nat) \<le> c"
    by (metis zero_less_one)
  from r4 have a4: "avgExperience (derive row4) = NaN"
    and e4: "experienceCategory (derive row4) = Expert"
    by simp_all
  show ?thesis
    by (intro conjI)
      (rule load_data_sheet_of sorts_by_stable m n a4 e4 chart8_sample14 k c fresher_sample14)+
qed

section \<open>The run of main\<close>

lemma main_unavailable: "main srt srtn Unavailable = ([], Some StopException)"
  by (simp add: main_def load_data_def)

lemma main_load_error: "load_data src = Inl e \<Longrightarrow> main srt srtn src = ([], Some e)"
  by (simp add: main_def)






lemma avg_of_loaded:
  assumes "load_data src = Inr df"
  shows "avg_of df ''avgSalary'' avgSalary = Inr (mean (map avgSalary (rows df)))"
    and "avg_of df ''avgExperience'' avgExperience = Inr (mean (map avgExperience (rows df)))"
  using load_data_columns [OF assms] by (simp_all add: avg_of_def getcol_def)

lemma main_loaded:
  assumes "load_data src = Inr df"
  shows "main srt srtn src =
    (case render
       [widget_of TopCity (top_city srt df),
        widget_of FresherJobs (fresher_pct df),
        widget_of Chart1 (create_chart1 srt df),
        widget_of Chart2 (create_chart2 srt df),
        widget_of Chart3 (create_chart3 df),
        widget_of Chart6 (create_chart6 srtn df),
        widget_of Chart8 (create_chart8 srt df)] of
       (ws, r) \<Rightarrow>
         (TotalJobs (length (rows df)) # AvgSalary (mean (map avgSalary (rows df))) #
          AvgExp (mean (map avgExperience (rows df))) # ws, r))"
  by (simp add: main_def assms avg_of_loaded [OF assms] widget_of_def split: prod.splits)


lemma main_top_city_error:
  assumes "load_data src = Inr df" and "top_city srt df = Inl e"
  shows "main srt srtn src =
    ([TotalJobs (length (rows df)), AvgSalary (mean (map avgSalary (rows df))),
      AvgExp (mean (map avgExperience (rows df)))], Some e)"
  by (simp add: main_loaded [OF assms(1)] assms(2) widget_of_def)

lemma top_city_no_column:
  "''location'' \<notin> set (columns df) \<Longrightarrow> top_city srt df = Inl (KeyError ''location'')"
  by (simp add: top_city_def getcol_def)

lemma value_counts_nil: "sorts_by R srt \<Longrightarrow> value_counts srt [] = []"
  using sorts_by_length [of R srt "[]"] by (simp add: value_counts_def counts_def)

lemma top_city_empty:
  assumes "sorts_by R srt" and "''location'' \<in> set (columns df)" and "rows df = []"
  shows "top_city srt df = Inl IndexError"
  using assms(2,3) by (simp add: top_city_def getcol_def value_counts_nil [OF assms(1)])

lemma main_fresher:
  assumes "load_data src = Inr df" and "top_city srt df = Inr c" and "rows df \<noteq> []"
  shows "\<exists>ws r. main srt srtn src =
    (TotalJobs (length (rows df)) # AvgSalary (mean (map avgSalary (rows df))) #
     AvgExp (mean (map avgExperience (rows df))) # TopCity c #
     FresherJobs (real (length (filter (\<lambda>r. experienceCategory r = Fresher) (rows df))) /
                  real (length (rows df)) * 100) # ws, r)"
  using assms(2,3)
  by (simp add: main_loaded [OF assms(1)] fresher_pct_loaded [OF assms(1)] widget_of_def
      split: prod.splits)

lemma render_error: "snd (render xs) = Some e \<Longrightarrow> Inl e \<in> set xs"
  by (induction xs rule: render.induct) (auto split: prod.splits)

lemma widget_of_error:
  "widget_of w r = Inl e \<longleftrightarrow> r = Inl e"
  "Inl e = widget_of w r \<longleftrightarrow> r = Inl e"
  by (auto simp: widget_of_def split: sum.splits)

lemma chart_errors:
  "create_chart1 srt df = Inl e \<Longrightarrow> e \<noteq> ZeroDivisionError"
  "create_chart2 srt df = Inl e \<Longrightarrow> e \<noteq> ZeroDivisionError"
  "create_chart3 df = Inl e \<Longrightarrow> e \<noteq> ZeroDivisionError"
  "create_chart6 srtn df = Inl e \<Longrightarrow> e \<noteq> ZeroDivisionError"
  "create_chart8 srt df = Inl e \<Longrightarrow> e \<noteq> ZeroDivisionError"
  "top_city srt df = Inl e \<Longrightarrow> e \<noteq> ZeroDivisionError"
  by (auto simp: create_chart1_def create_chart2_def create_chart3_def create_chart6_def
      create_chart8_def top_city_def getcol_def Let_def split: if_splits list.splits)

lemma load_data_no_zero_division: "load_data src \<noteq> Inl ZeroDivisionError"
  by (auto simp: load_data_def getcol_def split: source.splits if_splits)

lemma main_no_zero_division:
  assumes "sorts_by R srt"
  shows "snd (main srt srtn src) \<noteq> Some ZeroDivisionError"
proof (cases "load_data src")
  case (Inl e)
  with load_data_no_zero_division [of src] show ?thesis
    by (auto simp: main_load_error)
next
  case (Inr df)
  show ?thesis
  proof (cases "top_city srt df")
    case (Inl e)
    with chart_errors(6) [of srt df e] show ?thesis
      by (simp add: main_top_city_error [OF Inr Inl])
  next
    case c: (Inr c)
    have ne: "rows df \<noteq> []"
    proof
      assume e: "rows df = []"
      show False
      proof (cases "''location'' \<in> set (columns df)")
        case True
        from top_city_empty [OF assms True e] c show False by simp
      next
        case False
        from top_city_no_column [OF False] c show False by simp
      qed
    qed
    let ?rest = "[widget_of Chart1 (create_chart1 srt df), widget_of Chart2 (create_chart2 srt df),
        widget_of Chart3 (create_chart3 df), widget_of Chart6 (create_chart6 srtn df),
        widget_of Chart8 (create_chart8 srt df)]"
    have m: "snd (main srt srtn src) = snd (render ?rest)"
      using c ne
      by (simp add: main_loaded [OF Inr] fresher_pct_loaded [OF Inr] widget_of_def
          split: prod.splits)
    show ?thesis
    proof
      assume "snd (main srt srtn src) = Some ZeroDivisionError"
      with m have "Inl ZeroDivisionError \<in> set ?rest" by (simp only: render_error)
      then show False
        by (auto simp: widget_of_error dest: chart_errors)
    qed
  qed
qed










section \<open>The Fresher Jobs KPI\<close>

lemma location_loaded: "''location'' \<in> set (columns (loaded rs))"
  by (simp add: loaded_def all_columns_def)

lemma main_empty_sheet:
  "main sort_counts_stable sort_nums_stable (sheet_of []) =
     ([TotalJobs 0, AvgSalary NaN, AvgExp NaN], Some IndexError)"
proof -
  have e: "rows (loaded []) = []" by (simp add: loaded_def)
  from main_top_city_error [OF load_data_sheet_of top_city_empty [OF sorts_by_stable location_loaded e]]
  show ?thesis by (simp add: e mean_def)
qed

lemma top_city_sample13: "top_city sort_counts_stable (loaded [row1, row3]) = Inr ''X''"
  by (simp add: top_city_def getcol_def location_loaded rows_loaded derive_fields row1_def
      row3_def value_counts_def counts_def sort_counts_stable_def isort_def)

lemma fresher_count13:
  "real (length (filter (\<lambda>r. experienceCategory r = Fresher) (rows (loaded [row1, row3])))) /
     real (length (rows (loaded [row1, row3]))) * 100 = 50"
  by (simp add: rows_loaded cat_row1 cat_row3 band_neq)

text \<open>
  Claim C3, as the code has it. On an empty table no percentage is produced: the run ends
  at the Top City KPI, with \<^verbatim>\<open>IndexError\<close> from \<^verbatim>\<open>value_counts().index[0]\<close> (or \<^verbatim>\<open>KeyError\<close>
  when the table has no \<^verbatim>\<open>location\<close> column), after Total Jobs, Avg Salary and Avg Exp
  and before the percentage is computed (the claim says it returns 0 without an error). On
  a non-empty table the percentage is the number of Fresher rows divided by the number of
  rows, times 100, and it is the KPI rendered after Top City. The division never raises
  \<^verbatim>\<open>ZeroDivisionError\<close> in a run.
\<close>

theorem fresher_kpi_cases:
  assumes "load_data src = Inr df" and "sorts_by count_ge srt"
  shows "(rows df = [] \<longrightarrow>
            main srt srtn src =
              ([TotalJobs 0, AvgSalary NaN, AvgExp NaN],
               Some (if ''location'' \<in> set (columns df) then IndexError
                     else KeyError ''location''))) \<and>
         (rows df \<noteq> [] \<longrightarrow> fresher_pct df =
            Inr (real (length (filter (\<lambda>r. experienceCategory r = Fresher) (rows df))) /
                 real (length (rows df)) * 100)) \<and>
         (\<forall>c. top_city srt df = Inr c \<longrightarrow>
            rows df \<noteq> [] \<and>
            (\<exists>ws r. main srt srtn src =
               (TotalJobs (length (rows df)) # AvgSalary (mean (map avgSalary (rows df))) #
                AvgExp (mean (map avgExperience (rows df))) # TopCity c #
                FresherJobs
                  (real (length (filter (\<lambda>r. experienceCategory r = Fresher) (rows df))) /
                   real (length (rows df)) * 100) # ws, r))) \<and>
         snd (main srt srtn src) \<noteq> Some ZeroDivisionError"
proof (intro conjI impI allI)
  assume e: "rows df = []"
  have "top_city srt df =
      Inl (if ''location'' \<in> set (columns df) then IndexError else KeyError ''location'')"
    using top_city_empty [OF assms(2) _ e] top_city_no_column [of df srt] by simp
  from main_top_city_error [OF assms(1) this]
  show "main srt srtn src =
      ([TotalJobs 0, AvgSalary NaN, AvgExp NaN],
       Some (if ''location'' \<in> set (columns df) then IndexError else KeyError ''location''))"
    by (simp add: e mean_def)
next
  assume "rows df \<noteq> []"
  then show "fresher_pct df =
      Inr (real (length (filter (\<lambda>r. experienceCategory r = Fresher) (rows df))) /
           real (length (rows df)) * 100)"
    by (simp add: fresher_pct_loaded [OF assms(1)])
next
  fix c assume c: "top_city srt df = Inr c"
  show ne: "rows df \<noteq> []"
  proof
    assume e: "rows df = []"
    show False
    proof (cases "''location'' \<in> set (columns df)")
      case True
      from top_city_empty [OF assms(2) True e] c show False by simp
    next
      case False
      from top_city_no_column [OF False] c show False by simp
    qed
  qed
  show "\<exists>ws r. main srt srtn src =
      (TotalJobs (length (rows df)) # AvgSalary (mean (map avgSalary (rows df))) #
       AvgExp (mean (map avgExperience (rows df))) # TopCity c #
       FresherJobs
         (real (length (filter (\<lambda>r. experienceCategory r = Fresher) (rows df))) /
          real (length (rows df)) * 100) # ws, r)"
    by (rule main_fresher [OF assms(1) c ne])
next
  show "snd (main srt srtn src) \<noteq> Some ZeroDivisionError"
    by (rule main_no_zero_division [OF assms(2)])
qed

theorem fresher_kpi_cases_witness:
  "load_data (sheet_of []) = Inr (loaded []) \<and>
   sorts_by count_ge (sort_counts_stable :: (string \<times> nat) list \<Rightarrow> (string \<times> nat) list) \<and>
   rows (loaded []) = [] \<and>
   main sort_counts_stable sort_nums_stable (sheet_of []) =
     ([TotalJobs 0, AvgSalary NaN, AvgExp NaN], Some IndexError) \<and>
   load_data (sheet_of [row1, row3]) = Inr (loaded [row1, row3]) \<and>
   rows (loaded [row1, row3]) \<noteq> [] \<and>
   fresher_pct (loaded [row1, row3]) = Inr 50 \<and>
   top_city sort_counts_stable (loaded [row1, row3]) = Inr ''X'' \<and>
   (\<exists>ws r. main sort_counts_stable sort_nums_stable (sheet_of [row1, row3]) =
      (TotalJobs (length (rows (loaded [row1, row3]))) #
       AvgSalary (mean (map avgSalary (rows (loaded [row1, row3])))) #
       AvgExp (mean (map avgExperience (rows (loaded [row1, row3])))) #
       TopCity ''X'' # FresherJobs 50 # ws, r))"
proof -
  have e: "rows (loaded []) = []" and ne: "rows (loaded [row1, row3]) \<noteq> []"
    by (simp_all add: rows_loaded)
  note t0 = fresher_kpi_cases [OF load_data_sheet_of sorts_by_stable, of "[]" sort_nums_stable]
  note t1 = fresher_kpi_cases [OF load_data_sheet_of sorts_by_stable, of "[row1, row3]" sort_nums_stable]
  from t0 e have "main sort_counts_stable sort_nums_stable (sheet_of []) =
     ([TotalJobs 0, AvgSalary NaN, AvgExp NaN],
      Some (if ''location'' \<in> set (columns (loaded [])) then IndexError else KeyError ''location''))"
    by blast
  then have a: "main sort_counts_stable sort_nums_stable (sheet_of []) =
     ([TotalJobs 0, AvgSalary NaN, AvgExp NaN], Some IndexError)"
    by (simp only: location_loaded if_True)
  from t1 ne have "fresher_pct (loaded [row1, row3]) =
      Inr (real (length (filter (\<lambda>r. experienceCategory r = Fresher) (rows (loaded [row1, row3])))) /
           real (length (rows (loaded [row1, row3]))) * 100)"
    by blast
  then have b: "fresher_pct (loaded [row1, row3]) = Inr 50"
    by (simp only: fresher_count13)
  from t1 top_city_sample13
  have "\<exists>ws r. main sort_counts_stable sort_nums_stable (sheet_of [row1, row3]) =
      (TotalJobs (length (rows (loaded [row1, row3]))) #
       AvgSalary (mean (map avgSalary (rows (loaded [row1, row3])))) #
       AvgExp (mean (map avgExperience (rows (loaded [row1, row3])))) #
       TopCity ''X'' #
       FresherJobs
         (real (length (filter (\<lambda>r. experienceCategory r = Fresher) (rows (loaded [row1, row3])))) /
          real (length (rows (loaded [row1, row3]))) * 100) # ws, r)"
    by blast
  then have c: "\<exists>ws r. main sort_counts_stable sort_nums_stable (sheet_of [row1, row3]) =
      (TotalJobs (length (rows (loaded [row1, row3]))) #
       AvgSalary (mean (map avgSalary (rows (loaded [row1, row3])))) #
       AvgExp (mean (map avgExperience (rows (loaded [row1, row3])))) #
       TopCity ''X'' # FresherJobs 50 # ws, r)"
    by (simp only: fresher_count13)
  show ?thesis
    by (intro conjI)
      (rule load_data_sheet_of sorts_by_stable e a ne b top_city_sample13 c)+
qed

theorem empty_table_stops_before_fresher:
  "load_data (sheet_of []) = Inr (loaded []) \<and>
   rows (loaded []) = [] \<and>
   main sort_counts_stable sort_nums_stable (sheet_of []) =
     ([TotalJobs 0, AvgSalary NaN, AvgExp NaN], Some IndexError)"
  by (simp add: load_data_sheet_of main_empty_sheet rows_loaded)

section \<open>Top ten of a sorted series\<close>

lemma set_dropna: "set (dropna xs) = {x. Some x \<in> set xs}"
  by (induction xs rule: dropna.induct) auto

lemma count_list_dropna: "count_list (dropna xs) k = count_list xs (Some k)"
  by (induction xs rule: dropna.induct) auto

lemma length_unique: "length (unique xs) = card (set xs)"
  by (metis distinct_card distinct_unique set_unique)

lemma length_counts: "length (counts col) = card (set col)"
  by (simp add: counts_def length_unique)

lemma distinct_counts: "distinct (map fst (counts col))"
  by (simp add: keys_counts distinct_unique)

lemma top_length:
  assumes "sorts_by R srt"
  shows "length (take n (srt xs)) = min n (length xs)"
  by (simp add: sorts_by_length [OF assms] min.commute)

lemma top_sorted:
  assumes "sorts_by R srt"
  shows "sorted_wrt R (take n (srt xs))"
  using sorts_by_sorted [OF assms, of xs] sorted_wrt_take by blast

lemma top_subset:
  assumes "sorts_by R srt"
  shows "set (take n (srt xs)) \<subseteq> set xs"
  using set_take_subset [of n "srt xs"] by (simp add: sorts_by_set [OF assms])

lemma top_distinct:
  assumes "sorts_by R srt" and "distinct (map f xs)"
  shows "distinct (map f (take n (srt xs)))"
proof -
  from assms have "distinct (map f (srt xs))"
    by (simp add: sorts_by_distinct_keys)
  then show ?thesis
    by (simp flip: take_map)
qed

lemma top_all:
  assumes "sorts_by R srt" and "length xs \<le> n"
  shows "set (take n (srt xs)) = set xs"
  using assms by (simp add: sorts_by_length sorts_by_set)

lemma top_dominates:
  assumes "sorts_by R srt" and "x \<in> set xs" and "x \<notin> set (take n (srt xs))"
    and "e \<in> set (take n (srt xs))"
  shows "R e x"
proof -
  have "sorted_wrt R (take n (srt xs) @ drop n (srt xs))"
    by (simp add: sorts_by_sorted [OF assms(1)])
  then have *: "\<forall>a\<in>set (take n (srt xs)). \<forall>b\<in>set (drop n (srt xs)). R a b"
    by (simp only: sorted_wrt_append) blast
  from assms(2) have "x \<in> set (take n (srt xs) @ drop n (srt xs))"
    by (simp add: sorts_by_set [OF assms(1)])
  with assms(3) have "x \<in> set (drop n (srt xs))"
    by (simp only: set_append) blast
  with * assms(4) show ?thesis by blast
qed

lemma chart1_titles:
  assumes "''title'' \<in> set (columns df)"
  shows "create_chart1 srt df = Inr (take 10 (srt (counts (dropna (map title (rows df))))))"
  using assms by (simp add: create_chart1_def getcol_def value_counts_def)

lemma title_count:
  "count_list (dropna (map title rs)) t = length (filter (\<lambda>r. title r = Some t) rs)"
  by (simp add: count_list_dropna count_list_map)

lemma title_counts_entry:
  "(t, c) \<in> set (counts (dropna (map title rs))) \<longleftrightarrow>
     Some t \<in> title ` set rs \<and> c = length (filter (\<lambda>r. title r = Some t) rs)"
  by (auto simp: counts_entry set_dropna title_count)

text \<open>
  What \<open>create_chart1\<close> plots, for every sort that arranges its input in descending order
  of count: at most 10 entries, one per distinct non-null title when there are at most 10
  of them, each with the number of rows of that title, in descending order of count, and
  no title left out has more rows than one that is shown. The order among titles of equal
  count is the one the library's sort gives them; the program does not set it.
\<close>

lemma create_chart1_top10:
  assumes "''title'' \<in> set (columns df)" and "sorts_by count_ge srt"
  shows "\<exists>tc. create_chart1 srt df = Inr tc \<and>
      length tc \<le> 10 \<and>
      length tc = min 10 (card {t. Some t \<in> title ` set (rows df)}) \<and>
      sorted_wrt count_ge tc \<and>
      distinct (map fst tc) \<and>
      (\<forall>t c. (t, c) \<in> set tc \<longrightarrow>
         0 < c \<and> c = length (filter (\<lambda>r. title r = Some t) (rows df))) \<and>
      (\<forall>t. Some t \<in> title ` set (rows df) \<and> t \<notin> fst ` set tc \<longrightarrow>
         (\<forall>e\<in>set tc. length (filter (\<lambda>r. title r = Some t) (rows df)) \<le> snd e))"
proof -
  let ?xs = "counts (dropna (map title (rows df)))"
  let ?tc = "take 10 (srt ?xs)"
  note s = assms(2)
  have 1: "create_chart1 srt df = Inr ?tc" by (rule chart1_titles [OF assms(1)])
  have card: "card (set (dropna (map title (rows df)))) = card {t. Some t \<in> title ` set (rows df)}"
    by (simp add: set_dropna)
  have len: "length ?tc = min 10 (card {t. Some t \<in> title ` set (rows df)})"
    using top_length [OF s, of 10 ?xs] by (simp only: length_counts card)
  then have 2: "length ?tc \<le> 10" by simp
  have 3: "sorted_wrt count_ge ?tc" by (rule top_sorted [OF s])
  have 4: "distinct (map fst ?tc)" by (rule top_distinct [OF s distinct_counts])
  have 5: "0 < c \<and> c = length (filter (\<lambda>r. title r = Some t) (rows df))"
    if "(t, c) \<in> set ?tc" for t c
  proof -
    from that top_subset [OF s, of 10 ?xs] have "(t, c) \<in> set ?xs" by blast
    then have "t \<in> set (dropna (map title (rows df)))"
      and c: "c = length (filter (\<lambda>r. title r = Some t) (rows df))"
      by (simp_all add: counts_entry title_count)
    then have "0 < count_list (dropna (map title (rows df))) t"
      by (simp only: count_list_pos)
    with c show ?thesis by (simp add: title_count)
  qed
  have 6: "length (filter (\<lambda>r. title r = Some t) (rows df)) \<le> snd e"
    if "Some t \<in> title ` set (rows df)" "t \<notin> fst ` set ?tc" "e \<in> set ?tc" for t e
  proof -
    let ?x = "(t, length (filter (\<lambda>r. title r = Some t) (rows df)))"
    from that(1) have "?x \<in> set ?xs" by (simp add: title_counts_entry)
    moreover from that(2) have "?x \<notin> set ?tc" by force
    ultimately have "count_ge e ?x" using that(3) by (rule top_dominates [OF s])
    then show ?thesis by (simp add: count_ge_def)
  qed
  from 1 2 len 3 4 5 6 show ?thesis by blast
qed

section \<open>Companies by salary\<close>

lemma group_vals_columns:
  "group_vals (zip (map f rs) (map g rs)) k = map g (filter (\<lambda>r. f r = Some k) rs)"
  by (induction rs) (simp_all add: group_vals_def)

lemma company_salary_eq:
  "map (\<lambda>(k, m). (k, round_num m)) (groupby_mean (zip (map f rs) (map g rs))) =
   map (\<lambda>k. (k, round_num (mean (map g (filter (\<lambda>r. f r = Some k) rs)))))
     (sort (remdups (dropna (map f rs))))"
  by (simp add: groupby_mean_def group_vals_columns comp_def)

lemma chart6_loaded:
  assumes "load_data src = Inr df" and "''companyName'' \<in> set (columns df)"
  shows "create_chart6 srt df =
    Inr (take 10 (srt (map (\<lambda>k. (k, round_num (mean (map avgSalary
            (filter (\<lambda>r. companyName r = Some k) (rows df))))))
          (sort (remdups (dropna (map companyName (rows df))))))))"
  using load_data_columns [OF assms(1)] assms(2)
  by (simp add: create_chart6_def getcol_def company_salary_eq)

lemma mean_all_nan: "\<forall>x\<in>set xs. x = NaN \<Longrightarrow> mean xs = NaN"
proof -
  assume a: "\<forall>x\<in>set xs. x = NaN"
  then have "finite_vals xs = []"
    by (induction xs rule: finite_vals.induct) simp_all
  then show ?thesis by (simp add: mean_def)
qed

lemma company_loaded: "''companyName'' \<in> set (columns (loaded rs))"
  by (simp add: loaded_def all_columns_def)

lemma company_keys: "sort (remdups [''Acme'', ''Acme'', ''Initech'']) = [''Acme'', ''Initech'']"
  by code_simp

lemma companies_sample:
  "map companyName (rows (loaded [row1, row2, row3])) = [Some ''Acme'', Some ''Acme'', Some ''Initech'']"
  by (simp add: rows_loaded derive_fields row1_def row2_def row3_def)

lemma rint_2750: "rint 2750 = 2750"
  by (simp add: rint_def)

lemma acme_salaries:
  "map avgSalary (filter (\<lambda>r. companyName r = Some ''Acme'') (rows (loaded [row1, row2, row3]))) =
     [Num 1500, Num 4000]"
  by (simp add: rows_loaded derive_fields row1_def row2_def row3_def)

lemma initech_salaries:
  "map avgSalary (filter (\<lambda>r. companyName r = Some ''Initech'') (rows (loaded [row1, row2, row3]))) =
     [NaN]"
  by (simp add: rows_loaded derive_fields row1_def row2_def row3_def)

lemma chart6_sample:
  "create_chart6 sort_nums_stable (loaded [row1, row2, row3]) =
     Inr [(''Acme'', Num 2750), (''Initech'', NaN)]"
  by (simp add: chart6_loaded [OF load_data_sheet_of company_loaded] companies_sample company_keys
      acme_salaries initech_salaries mean_def rint_2750 sort_nums_stable_def isort_def)

text \<open>
  Claim C7, as the code has it. \<open>create_chart6\<close> groups the rows by company name, takes the
  mean of the non-null \<open>avgSalary\<close> of each group, rounds it to a whole number, sorts in
  descending order with NaN last and keeps the first 10. A group with no valid salary has
  mean NaN; it is not excluded, and is in the result whenever there are at most 10
  groups.
\<close>

theorem top_companies_by_salary:
  assumes "load_data src = Inr df" and "''companyName'' \<in> set (columns df)"
    and "sorts_by num_ge srt"
  shows "\<exists>cs. create_chart6 srt df = Inr cs \<and>
      length cs \<le> 10 \<and>
      length cs = min 10 (card {k. Some k \<in> companyName ` set (rows df)}) \<and>
      sorted_wrt num_ge cs \<and>
      distinct (map fst cs) \<and>
      (\<forall>k v. (k, v) \<in> set cs \<longrightarrow>
         Some k \<in> companyName ` set (rows df) \<and>
         v = round_num (mean (map avgSalary (filter (\<lambda>r. companyName r = Some k) (rows df))))) \<and>
      (\<forall>k. Some k \<in> companyName ` set (rows df) \<and> k \<notin> fst ` set cs \<longrightarrow>
         (\<forall>e\<in>set cs. num_ge e
            (k, round_num (mean (map avgSalary (filter (\<lambda>r. companyName r = Some k) (rows df))))))) \<and>
      (\<forall>k. card {k. Some k \<in> companyName ` set (rows df)} \<le> 10 \<and>
           Some k \<in> companyName ` set (rows df) \<and>
           (\<forall>r\<in>set (rows df). companyName r = Some k \<longrightarrow> avgSalary r = NaN) \<longrightarrow>
         (k, NaN) \<in> set cs)"
proof -
  let ?v = "\<lambda>k. round_num (mean (map avgSalary (filter (\<lambda>r. companyName r = Some k) (rows df))))"
  let ?keys = "sort (remdups (dropna (map companyName (rows df))))"
  let ?xs = "map (\<lambda>k. (k, ?v k)) ?keys"
  let ?cs = "take 10 (srt ?xs)"
  note s = assms(3)
  have keys: "set ?keys = {k. Some k \<in> companyName ` set (rows df)}"
    by (simp add: set_dropna)
  have lenk: "length ?xs = card {k. Some k \<in> companyName ` set (rows df)}"
    by (simp add: length_remdups_card_conv set_dropna)
  have entry: "(k, v) \<in> set ?xs \<longleftrightarrow> Some k \<in> companyName ` set (rows df) \<and> v = ?v k" for k v
    using keys by auto
  have 1: "create_chart6 srt df = Inr ?cs" by (rule chart6_loaded [OF assms(1,2)])
  have len: "length ?cs = min 10 (card {k. Some k \<in> companyName ` set (rows df)})"
    using top_length [OF s, of 10 ?xs] by (simp only: lenk)
  then have 2: "length ?cs \<le> 10" by simp
  have 3: "sorted_wrt num_ge ?cs" by (rule top_sorted [OF s])
  have "distinct (map fst ?xs)" by (simp add: comp_def)
  then have 4: "distinct (map fst ?cs)" by (rule top_distinct [OF s])
  have 5: "Some k \<in> companyName ` set (rows df) \<and> v = ?v k" if "(k, v) \<in> set ?cs" for k v
  proof -
    from that top_subset [OF s, of 10 ?xs] have "(k, v) \<in> set ?xs" by blast
    then show ?thesis by (simp only: entry)
  qed
  have 6: "num_ge e (k, ?v k)"
    if "Some k \<in> companyName ` set (rows df)" "k \<notin> fst ` set ?cs" "e \<in> set ?cs" for k e
  proof -
    from that(1) have "(k, ?v k) \<in> set ?xs" by (simp only: entry)
    moreover from that(2) have "(k, ?v k) \<notin> set ?cs" by force
    ultimately show ?thesis using that(3) by (rule top_dominates [OF s])
  qed
  have 7: "(k, NaN) \<in> set ?cs"
    if "card {k. Some k \<in> companyName ` set (rows df)} \<le> 10"
      "Some k \<in> companyName ` set (rows df)"
      "\<forall>r\<in>set (rows df). companyName r = Some k \<longrightarrow> avgSalary r = NaN" for k
  proof -
    from that(3) have "mean (map avgSalary (filter (\<lambda>r. companyName r = Some k) (rows df))) = NaN"
      by (intro mean_all_nan) auto
    then have "?v k = NaN" by simp
    with that(2) have "(k, NaN) \<in> set ?xs" by (simp only: entry)
    moreover from that(1) have "length ?xs \<le> 10" by (simp only: lenk)
    ultimately show ?thesis by (simp only: top_all [OF s])
  qed
  from 1 2 len 3 4 5 6 7 show ?thesis by blast
qed
theorem top_companies_by_salary_witness:
  "load_data (sheet_of [row1, row2, row3]) = Inr (loaded [row1, row2, row3]) \<and>
   ''companyName'' \<in> set (columns (loaded [row1, row2, row3])) \<and>
   sorts_by num_ge (sort_nums_stable :: (string \<times> number) list \<Rightarrow> (string \<times> number) list) \<and>
   (\<exists>cs. create_chart6 sort_nums_stable (loaded [row1, row2, row3]) = Inr cs \<and>
      length cs \<le> 10 \<and> sorted_wrt num_ge cs \<and> distinct (map fst cs)) \<and>
   create_chart6 sort_nums_stable (loaded [row1, row2, row3]) =
     Inr [(''Acme'', Num 2750), (''Initech'', NaN)]"
proof -
  from top_companies_by_salary [OF load_data_sheet_of company_loaded sorts_by_nums,
    of "[row1, row2, row3]"]
  have e: "\<exists>cs. create_chart6 sort_nums_stable (loaded [row1, row2, row3]) = Inr cs \<and>
      length cs \<le> 10 \<and> sorted_wrt num_ge cs \<and> distinct (map fst cs)"
    by blast
  show ?thesis
    by (intro conjI) (rule load_data_sheet_of company_loaded sorts_by_nums e chart6_sample)+
qed

theorem top_companies_keeps_group_without_salary:
  "load_data (sheet_of [row1, row2, row3]) = Inr (loaded [row1, row2, row3]) \<and>
   map avgSalary (filter (\<lambda>r. companyName r = Some ''Initech'') (rows (loaded [row1, row2, row3]))) =
     [NaN] \<and>
   create_chart6 sort_nums_stable (loaded [row1, row2, row3]) =
     Inr [(''Acme'', Num 2750), (''Initech'', NaN)]"
  by (intro conjI) (rule load_data_sheet_of initech_salaries chart6_sample)+

section \<open>Skill tokens\<close>

lemma is_word_char_space: "\<not> is_word_char CHR '' ''"
  by (simp add: is_word_char_def is_alnum_def less_eq_char_def)

lemma lower_char_space: "lower_char CHR '' '' = CHR '' ''"
  by (simp add: lower_char_def less_eq_char_def)

lemma lower_char_idem: "lower_char (lower_char c) = lower_char c"
  by (auto simp: lower_char_def less_eq_char_def)

lemma lower_idem: "lower (lower s) = lower s"
  by (simp add: lower_def lower_char_idem)

lemma lower_append: "lower (a @ b) = lower a @ lower b"
  by (simp add: lower_def)

lemma lower_chars: "c \<in> set (lower s) \<Longrightarrow> lower_char c = c"
  by (auto simp: lower_def lower_char_idem)

lemma runs_sep:
  "\<not> is_word_char sep \<Longrightarrow> runs cur (a @ sep # b) = runs cur a @ runs [] b"
  by (induction a arbitrary: cur) simp_all

lemma runs_chars:
  "w \<in> set (runs cur s) \<Longrightarrow> c \<in> set w \<Longrightarrow> c \<in> set cur \<or> (c \<in> set s \<and> is_word_char c)"
proof (induction s arbitrary: cur)
  case Nil
  then show ?case by (simp split: if_splits)
next
  case (Cons a s)
  show ?case
  proof (cases "is_word_char a")
    case True
    with Cons.prems have "w \<in> set (runs (cur @ [a]) s)" by simp
    from Cons.IH [OF this Cons.prems(2)] True show ?thesis by auto
  next
    case False
    with Cons.prems have "w = cur \<or> w \<in> set (runs [] s)" by (simp split: if_splits)
    then show ?thesis
    proof
      assume "w = cur"
      with Cons.prems(2) show ?thesis by simp
    next
      assume "w \<in> set (runs [] s)"
      from Cons.IH [OF this Cons.prems(2)] show ?thesis by simp
    qed
  qed
qed

lemma findall_chars:
  "w \<in> set (findall_words s) \<Longrightarrow> c \<in> set w \<Longrightarrow> c \<in> set s \<and> is_word_char c"
  using runs_chars [of w "[]" s c] by (simp add: findall_words_def)

lemma findall_sep:
  "\<not> is_word_char sep \<Longrightarrow> findall_words (a @ sep # b) = findall_words a @ findall_words b"
  by (simp add: findall_words_def runs_sep)

lemma findall_nil: "findall_words [] = []"
  by (simp add: findall_words_def)

lemma dropna_append: "dropna (xs @ ys) = dropna xs @ dropna ys"
  by (induction xs rule: dropna.induct) simp_all

lemma join_append:
  "xs \<noteq> [] \<Longrightarrow> ys \<noteq> [] \<Longrightarrow> join sep (xs @ ys) = join sep xs @ sep @ join sep ys"
  by (induction sep xs rule: join.induct) (auto simp: neq_Nil_conv)

lemma lower_join: "lower (join '' '' xs) = join '' '' (map lower xs)"
  by (induction "'' ''" xs rule: join.induct) (simp_all add: lower_append, simp_all add: lower_def lower_char_space)

lemma skill_words_alt:
  "skill_words text_data =
     filter (\<lambda>word. word \<notin> set stop_words \<and> 2 < length word)
       (findall_words (lower (join '' '' (dropna text_data))))"
  by (simp add: skill_words_def Let_def)

lemma skill_words_append: "skill_words (xs @ ys) = skill_words xs @ skill_words ys"
proof (cases "dropna xs = [] \<or> dropna ys = []")
  case True
  then show ?thesis
    by (auto simp: skill_words_alt dropna_append findall_nil lower_def)
next
  case False
  then have "lower (join '' '' (dropna (xs @ ys))) =
      lower (join '' '' (dropna xs)) @ CHR '' '' # lower (join '' '' (dropna ys))"
    by (simp add: dropna_append join_append lower_append) (simp add: lower_def lower_char_space)
  then show ?thesis
    by (simp add: skill_words_alt findall_sep [OF is_word_char_space])
qed

lemma dropna_map: "dropna (map (map_option f) xs) = map f (dropna xs)"
  by (induction xs rule: dropna.induct) simp_all

lemma skill_words_lower: "skill_words (map (map_option lower) data) = skill_words data"
proof -
  have "lower (join '' '' (map lower (dropna data))) = lower (join '' '' (dropna data))"
    by (simp add: lower_join [symmetric] lower_idem)
  then show ?thesis
    by (simp add: skill_words_alt dropna_map)
qed

lemma skill_words_tokens:
  assumes "w \<in> set (skill_words data)"
  shows "2 < length w \<and> w \<notin> set stop_words \<and> (\<forall>c\<in>set w. is_word_char c \<and> lower_char c = c)"
proof -
  from assms have k: "w \<notin> set stop_words \<and> 2 < length w"
    and f: "w \<in> set (findall_words (lower (join '' '' (dropna data))))"
    by (simp_all add: skill_words_alt)
  from f have "\<forall>c\<in>set w. is_word_char c \<and> lower_char c = c"
    using findall_chars lower_chars by blast
  with k show ?thesis by simp
qed

lemma is_word_char_lower: "is_word_char (lower_char c) = is_word_char c"
  by (auto simp: is_word_char_def is_alnum_def lower_char_def less_eq_char_def)

lemma runs_word:
  "list_all is_word_char s \<Longrightarrow> runs cur s = (if cur @ s = [] then [] else [cur @ s])"
  by (induction s arbitrary: cur) simp_all

lemma findall_word:
  "list_all is_word_char s \<Longrightarrow> s \<noteq> [] \<Longrightarrow> findall_words s = [s]"
  by (simp add: findall_words_def runs_word)

lemma skill_words_single:
  assumes "list_all is_word_char s" and "s \<noteq> []"
  shows "skill_words [Some s] =
    (if lower s \<in> set stop_words \<or> length s \<le> 2 then [] else [lower s])"
proof -
  from assms have "list_all is_word_char (lower s)" and "lower s \<noteq> []"
    by (simp_all add: lower_def list_all_iff is_word_char_lower)
  then have "findall_words (lower s) = [lower s]" by (rule findall_word)
  moreover have "length (lower s) = length s" by (simp add: lower_def)
  ultimately show ?thesis by (simp add: skill_words_alt)
qed

lemma skill_words_split:
  assumes "\<not> is_word_char sep"
  shows "skill_words [Some (a @ sep # b)] = skill_words [Some a] @ skill_words [Some b]"
proof -
  have "lower (a @ sep # b) = lower a @ lower_char sep # lower b"
    by (simp add: lower_def)
  moreover from assms have "\<not> is_word_char (lower_char sep)"
    by (simp add: is_word_char_lower)
  ultimately show ?thesis by (simp add: skill_words_alt findall_sep)
qed

lemma skill_words_none: "skill_words [None] = []"
  by (simp add: skill_words_alt findall_nil lower_def)

lemma skill_words_blank: "skill_words [Some []] = []"
  by (simp add: skill_words_alt findall_nil lower_def)

text \<open>
  Claim C8, as the code has it. The tokens that \<^verbatim>\<open>create_wordcloud\<close> keeps are runs of word
  characters (letters, digits and the underscore) of the lowercased text: each is longer than
  two characters, is no stop word and has no upper-case letter. The list is built row by row,
  a null or empty field adds nothing, a character that is no word character ends a token, and
  a field that is one run of word characters gives its lowercased form unless that is a stop
  word or too short, so a stop word is dropped whatever its casing. Lowercasing the input
  changes nothing. The surviving tokens are joined and handed to the word-cloud library; the
  program itself counts nothing.
\<close>

theorem skill_words_tokenization:
  "(\<forall>w\<in>set (skill_words data).
      2 < length w \<and> w \<notin> set stop_words \<and> (\<forall>c\<in>set w. is_word_char c \<and> lower_char c = c)) \<and>
   skill_words (xs @ ys) = skill_words xs @ skill_words ys \<and>
   skill_words [None] = [] \<and>
   skill_words [Some []] = [] \<and>
   (\<not> is_word_char sep \<longrightarrow>
      skill_words [Some (a @ sep # b)] = skill_words [Some a] @ skill_words [Some b]) \<and>
   (list_all is_word_char s \<and> s \<noteq> [] \<longrightarrow>
      skill_words [Some s] =
        (if lower s \<in> set stop_words \<or> length s \<le> 2 then [] else [lower s])) \<and>
   skill_words (map (map_option lower) data) = skill_words data"
  using skill_words_tokens [of _ data] skill_words_append [of xs ys] skill_words_none
    skill_words_blank skill_words_split [of sep a b] skill_words_single [of s]
    skill_words_lower [of data]
  by blast

lemma sample_tokens:
  "skill_words [Some ''Python, SQL Skills'', None, Some ''machine_learning'', Some []] =
   [''python'', ''sql'', ''machine_learning'']"
  by code_simp

lemma sample_words: "list_all is_word_char ''SKILLS''" "list_all is_word_char ''Skills''"
  "\<not> is_word_char CHR '',''" "lower ''SKILLS'' = ''skills''" "lower ''Skills'' = ''skills''"
  "''skills'' \<in> set stop_words"
  by code_simp+

theorem skill_words_tokenization_witness:
  "''python'' \<in> set (skill_words [Some ''Python, SQL Skills'', None, Some ''machine_learning'', Some []]) \<and>
   2 < length ''python'' \<and> ''python'' \<notin> set stop_words \<and>
   \<not> is_word_char CHR '','' \<and>
   skill_words [Some (''Java'' @ CHR '','' # ''SKILLS'')] =
     skill_words [Some ''Java''] @ skill_words [Some ''SKILLS''] \<and>
   list_all is_word_char ''SKILLS'' \<and> ''SKILLS'' \<noteq> [] \<and> skill_words [Some ''SKILLS''] = [] \<and>
   list_all is_word_char ''Skills'' \<and> ''Skills'' \<noteq> [] \<and> skill_words [Some ''Skills''] = []"
proof -
  let ?d = "[Some ''Python, SQL Skills'', None, Some ''machine_learning'', Some []]"
  have m: "''python'' \<in> set (skill_words ?d)"
    by (simp only: sample_tokens) simp
  from skill_words_tokenization [of ?d] m
  have t: "2 < length ''python'' \<and> ''python'' \<notin> set stop_words" by blast
  from skill_words_tokenization [of "[]" "[]" "[]" "CHR '',''" "''Java''" "''SKILLS''"] sample_words(3)
  have sp: "skill_words [Some (''Java'' @ CHR '','' # ''SKILLS'')] =
     skill_words [Some ''Java''] @ skill_words [Some ''SKILLS'']" by blast
  have ne: "''SKILLS'' \<noteq> []" "''Skills'' \<noteq> []" by simp_all
  from skill_words_tokenization [of "[]" "[]" "[]" "CHR '',''" "[]" "[]" "''SKILLS''"] sample_words(1) ne(1)
  have "skill_words [Some ''SKILLS''] =
        (if lower ''SKILLS'' \<in> set stop_words \<or> length ''SKILLS'' \<le> 2 then [] else [lower ''SKILLS''])"
    by blast
  then have u: "skill_words [Some ''SKILLS''] = []"
    by (simp only: sample_words(4,6) simp_thms if_True)
  from skill_words_tokenization [of "[]" "[]" "[]" "CHR '',''" "[]" "[]" "''Skills''"] sample_words(2) ne(2)
  have "skill_words [Some ''Skills''] =
        (if lower ''Skills'' \<in> set stop_words \<or> length ''Skills'' \<le> 2 then [] else [lower ''Skills''])"
    by blast
  then have c: "skill_words [Some ''Skills''] = []"
    by (simp only: sample_words(5,6) simp_thms if_True)
  from t have t1: "2 < length ''python''" and t2: "''python'' \<notin> set stop_words" by simp_all
  show ?thesis
    by (intro conjI) (rule m t1 t2 sample_words(3) sp sample_words(1) ne(1) u sample_words(2) ne(2) c)+
qed

theorem underscore_joins_tokens:
  "skill_words [Some ''machine_learning''] = [''machine_learning''] \<and>
   \<not> list_all is_alnum ''machine_learning'' \<and>
   create_wordcloud [Some ''machine_learning''] = Some ''machine_learning''"
  by code_simp

end
